theory Spec2Isabelle
  imports Main
begin

section \<open>Python values read by the assertion chain\<close>

text \<open>
  The chain of \<^verbatim>\<open>beerest/core/expect.py\<close> handles values typed \<^verbatim>\<open>Any\<close>: the
  decoded JSON body, a status code, a header value, the arguments of the predicates.
  They are modelled by the JSON-shaped Python values: \<^verbatim>\<open>None\<close>, \<^verbatim>\<open>bool\<close>,
  \<^verbatim>\<open>int\<close> (unbounded), \<^verbatim>\<open>str\<close>, \<^verbatim>\<open>list\<close> and \<^verbatim>\<open>dict\<close> with string keys (an
  association list in insertion order, keys distinct). Floating-point numbers and
  user-defined classes are outside the model. A character stands for a code point
  below 256.
\<close>

datatype pyval =
    PNone
  | PBool bool
  | PInt int
  | PStr string
  | PList "pyval list"
  | PDict "(string \<times> pyval) list"

subsection \<open>Truthiness: \<^verbatim>\<open>bool(v)\<close>, \<^verbatim>\<open>if v\<close>, \<^verbatim>\<open>not v\<close>\<close>

fun py_truthy :: "pyval \<Rightarrow> bool" where
  "py_truthy PNone = False"
| "py_truthy (PBool b) = b"
| "py_truthy (PInt i) = (i \<noteq> 0)"
| "py_truthy (PStr s) = (s \<noteq> [])"
| "py_truthy (PList xs) = (xs \<noteq> [])"
| "py_truthy (PDict kvs) = (kvs \<noteq> [])"

subsection \<open>Textual form: \<^verbatim>\<open>str(v)\<close> and \<^verbatim>\<open>repr(v)\<close>\<close>

fun join :: "string \<Rightarrow> string list \<Rightarrow> string" where
  "join sep [] = []"
| "join sep [x] = x"
| "join sep (x # y # ys) = x @ sep @ join sep (y # ys)"

definition digit_char :: "nat \<Rightarrow> char" where
  "digit_char d = ''0123456789abcdef'' ! (d mod 16)"

fun str_nat :: "nat \<Rightarrow> string" where
  "str_nat n = (if n < 10 then [digit_char n] else str_nat (n div 10) @ [digit_char (n mod 10)])"

declare str_nat.simps [simp del]

definition str_int :: "int \<Rightarrow> string" where
  "str_int i = (if i < 0 then CHR ''-'' # str_nat (nat (- i)) else str_nat (nat i))"

text \<open>
  \<^verbatim>\<open>repr\<close> of a string: single quotes, unless the string holds a single quote and no
  double quote; backslash, the chosen quote, newline, carriage return and tab are
  escaped, the other non-printable code points are written \<^verbatim>\<open>\xhh\<close>.
\<close>

definition repr_quote :: "string \<Rightarrow> char" where
  "repr_quote s = (if CHR 0x27 \<in> set s \<and> CHR 0x22 \<notin> set s then CHR 0x22 else CHR 0x27)"

definition non_printable :: "nat \<Rightarrow> bool" where
  "non_printable n = (n < 32 \<or> (127 \<le> n \<and> n \<le> 160) \<or> n = 173)"

definition repr_char :: "char \<Rightarrow> char \<Rightarrow> string" where
  "repr_char q c =
     (if c = CHR 0x5C then [CHR 0x5C, CHR 0x5C]
      else if c = q then [CHR 0x5C, q]
      else if c = CHR 0x0A then [CHR 0x5C, CHR ''n'']
      else if c = CHR 0x0D then [CHR 0x5C, CHR ''r'']
      else if c = CHR 0x09 then [CHR 0x5C, CHR ''t'']
      else if non_printable (of_char c)
        then [CHR 0x5C, CHR ''x'', digit_char (of_char c div 16), digit_char (of_char c mod 16)]
      else [c])"

definition repr_str :: "string \<Rightarrow> string" where
  "repr_str s = (let q = repr_quote s in q # concat (map (repr_char q) s) @ [q])"

fun py_repr :: "pyval \<Rightarrow> string"
  and repr_items :: "pyval list \<Rightarrow> string list"
  and repr_pairs :: "(string \<times> pyval) list \<Rightarrow> string list" where
  "py_repr PNone = ''None''"
| "py_repr (PBool b) = (if b then ''True'' else ''False'')"
| "py_repr (PInt i) = str_int i"
| "py_repr (PStr s) = repr_str s"
| "py_repr (PList xs) = ''['' @ join '', '' (repr_items xs) @ '']''"
| "py_repr (PDict kvs) = ''{'' @ join '', '' (repr_pairs kvs) @ ''}''"
| "repr_items [] = []"
| "repr_items (x # xs) = py_repr x # repr_items xs"
| "repr_pairs [] = []"
| "repr_pairs ((k, v) # kvs) = (repr_str k @ '': '' @ py_repr v) # repr_pairs kvs"

text \<open>\<^verbatim>\<open>str\<close> differs from \<^verbatim>\<open>repr\<close> on a string only, which it returns as it is.\<close>

fun py_str :: "pyval \<Rightarrow> string" where
  "py_str (PStr s) = s"
| "py_str v = py_repr v"

subsection \<open>Equality: \<^verbatim>\<open>a == b\<close>\<close>

text \<open>
  \<^verbatim>\<open>bool\<close> is a subclass of \<^verbatim>\<open>int\<close>: \<^verbatim>\<open>True == 1\<close>. Lists are equal
  element by element; dictionaries are equal when they have the same keys with equal
  values, in any order.
\<close>

fun num_of :: "pyval \<Rightarrow> int option" where
  "num_of (PBool b) = Some (if b then 1 else 0)"
| "num_of (PInt i) = Some i"
| "num_of v = None"

fun py_eq :: "pyval \<Rightarrow> pyval \<Rightarrow> bool"
  and eq_list :: "pyval list \<Rightarrow> pyval list \<Rightarrow> bool"
  and dict_sub :: "(string \<times> pyval) list \<Rightarrow> (string \<times> pyval) list \<Rightarrow> bool" where
  "py_eq PNone b = (b = PNone)"
| "py_eq (PBool x) b = (num_of b = Some (if x then 1 else 0))"
| "py_eq (PInt i) b = (num_of b = Some i)"
| "py_eq (PStr s) b = (b = PStr s)"
| "py_eq (PList xs) b = (case b of PList ys \<Rightarrow> eq_list xs ys | _ \<Rightarrow> False)"
| "py_eq (PDict kvs) b =
     (case b of PDict kvs' \<Rightarrow> length kvs = length kvs' \<and> dict_sub kvs kvs' | _ \<Rightarrow> False)"
| "eq_list [] ys = (ys = [])"
| "eq_list (x # xs) ys = (case ys of [] \<Rightarrow> False | y # ys' \<Rightarrow> py_eq x y \<and> eq_list xs ys')"
| "dict_sub [] kvs' = True"
| "dict_sub ((k, v) # kvs) kvs' =
     (case map_of kvs' k of None \<Rightarrow> False | Some v' \<Rightarrow> py_eq v v' \<and> dict_sub kvs kvs')"

section \<open>Data model\<close>

text \<open>
  A value recorded in a check is any value of the chain; \<^verbatim>\<open>has_keys\<close> alone records
  a \<^verbatim>\<open>set\<close> of key names, which is no JSON value. Python prints the elements of a
  set in an order of its own; the model prints them in the order of the list.
\<close>

datatype recorded = Val pyval | KeySet "string list"

fun str_recorded :: "recorded \<Rightarrow> string" where
  "str_recorded (Val v) = py_str v"
| "str_recorded (KeySet ks) =
     (if ks = [] then ''set()'' else ''{'' @ join '', '' (map repr_str ks) @ ''}'')"

text \<open>\<^verbatim>\<open>datetime\<close>: the fields that \<^verbatim>\<open>strftime('%H:%M:%S.%f')\<close> reads.\<close>

record timestamp =
  hour :: nat
  minute :: nat
  second :: nat
  microsecond :: nat

text \<open>A frame of the call stack, as \<^verbatim>\<open>inspect\<close> shows it.\<close>

record frame =
  co_name :: string
  co_filename :: string
  f_lineno :: nat

text \<open>
  \<^verbatim>\<open>Response\<close> is declared in \<^verbatim>\<open>beerest/core/response.py\<close>, which is not part of
  the sources at hand; the four attributes are the ones \<^verbatim>\<open>expect.py\<close> reads. The
  headers are a dictionary. An object of the class is taken to be truthy and to have
  all four attributes.
\<close>

record response =
  status_code :: pyval
  headers :: "(string \<times> pyval) list"
  json_data :: pyval
  elapsed_time :: pyval

text \<open>\<^verbatim>\<open>class Check\<close>\<close>

record check =
  passed :: bool
  message :: string
  actual :: recorded
  expected :: recorded
  check_context :: "string option"
  timestamp :: timestamp

text \<open>
  \<^verbatim>\<open>class ExpectError\<close>: the three attributes set by \<^verbatim>\<open>__init__\<close>, and the text
  handed to \<^verbatim>\<open>Exception.__init__\<close>.
\<close>

record expect_error =
  err_message :: string
  err_checks :: "check list"
  err_response :: "response option"
  err_text :: string

text \<open>
  What an operation can raise: the signal of a failed check, the exceptions the code
  raises itself, the ones a built-in operator raises, and \<^verbatim>\<open>External\<close> for anything
  raised inside a collaborator (the regular-expression engine, the schema validator,
  a caller's predicate).
\<close>

datatype py_exc =
    ExpectError expect_error
  | ValueError string
  | AssertionError string
  | TypeError
  | AttributeError
  | External string

text \<open>
  Object identity. An assignment such as \<^verbatim>\<open>self._current_value = self.response.json_data\<close>
  binds the cursor to the object itself, not to a copy: the cursor and the response then
  hold the same object, and a change made to it in place shows in both. \<open>origin\<close> says
  which object of the response the cursor is: the status code, the elapsed time, the
  value of a header, or the part of the JSON body reached by a list of steps (a key of a
  dictionary, an index of a list; no step for the body itself). \<open>Detached\<close> is an
  object the response does not hold.
\<close>

datatype step = Key string | Index nat

datatype origin =
    Detached
  | In_status
  | In_elapsed
  | In_header string
  | In_json "step list"

text \<open>The part of a value that a list of steps reaches, if there is one.\<close>

fun get_at :: "pyval \<Rightarrow> step list \<Rightarrow> pyval option" where
  "get_at v [] = Some v"
| "get_at (PDict kvs) (Key k # steps) =
     (case map_of kvs k of None \<Rightarrow> None | Some v \<Rightarrow> get_at v steps)"
| "get_at (PList xs) (Index i # steps) =
     (if i < length xs then get_at (xs ! i) steps else None)"
| "get_at v (st # steps) = None"

text \<open>The value with that part replaced; a list of steps that reaches nothing changes nothing.\<close>

fun put_at :: "pyval \<Rightarrow> step list \<Rightarrow> pyval \<Rightarrow> pyval"
  and put_key :: "(string \<times> pyval) list \<Rightarrow> string \<Rightarrow> step list \<Rightarrow> pyval \<Rightarrow> (string \<times> pyval) list"
  and put_index :: "pyval list \<Rightarrow> nat \<Rightarrow> step list \<Rightarrow> pyval \<Rightarrow> pyval list" where
  "put_at v [] w = w"
| "put_at (PDict kvs) (Key k # steps) w = PDict (put_key kvs k steps w)"
| "put_at (PList xs) (Index i # steps) w = PList (put_index xs i steps w)"
| "put_at v (st # steps) w = v"
| "put_key [] k steps w = []"
| "put_key ((k', v) # kvs) k steps w =
     (if k' = k then (k', put_at v steps w) # kvs else (k', v) # put_key kvs k steps w)"
| "put_index [] i steps w = []"
| "put_index (x # xs) i steps w =
     (case i of 0 \<Rightarrow> put_at x steps w # xs | Suc j \<Rightarrow> x # put_index xs j steps w)"

text \<open>The response in which the object at an origin has the contents \<open>w\<close>.\<close>

fun store_back :: "origin \<Rightarrow> pyval \<Rightarrow> response \<Rightarrow> response" where
  "store_back Detached w r = r"
| "store_back In_status w r = r\<lparr>status_code := w\<rparr>"
| "store_back In_elapsed w r = r\<lparr>elapsed_time := w\<rparr>"
| "store_back (In_header name) w r = r\<lparr>headers := put_key (headers r) name [] w\<rparr>"
| "store_back (In_json steps) w r = r\<lparr>json_data := put_at (json_data r) steps w\<rparr>"

text \<open>
  \<^verbatim>\<open>class Expect\<close>; the attributes keep their names, less the leading underscore.
  \<open>cursor_origin\<close> is no attribute of the class: it is the identity of the object that
  \<^verbatim>\<open>_current_value\<close> is bound to.
\<close>

record expect =
  response :: response
  checks :: "check list"
  chain_context :: "string option"
  current_value :: pyval
  cursor_origin :: origin
  current_path :: pyval
  soft_assert :: bool

text \<open>
  Code of the caller that is handed the cursor gets the object itself and may change it
  in place. Only a list or a dictionary can be changed, and it stays a list or a
  dictionary; \<open>in_place v w\<close> is what an object with contents \<open>v\<close> holds after code
  that leaves \<open>w\<close> in it. \<open>hand_over s w\<close> is the chain afterwards: where the contents
  changed, they changed in the cursor and in the response alike. A record of an earlier
  check keeps the value it was given.
\<close>

fun in_place :: "pyval \<Rightarrow> pyval \<Rightarrow> pyval" where
  "in_place (PList xs) (PList ys) = PList ys"
| "in_place (PDict kvs) (PDict kvs') = PDict kvs'"
| "in_place v w = v"

definition hand_over :: "expect \<Rightarrow> pyval \<Rightarrow> expect" where
  "hand_over s w =
     (let v' = in_place (current_value s) w
      in if v' = current_value s then s
         else s\<lparr>current_value := v',
                response := store_back (cursor_origin s) v' (response s)\<rparr>)"

text \<open>
  What the code reads from its surroundings: the clock (\<^verbatim>\<open>datetime.now()\<close>), the call
  stack with the innermost frame first, and the collaborators.
  \<^item> \<open>jsonpath_find p d\<close> is \<^verbatim>\<open>jsonpath_ng.parse(p).find(d)\<close>: the matches in
    order, each given by the steps that lead to it in the document \<open>d\<close> (the value of
    a match is that part of the document itself), or \<open>Inl\<close> when either call raises;
  \<^item> \<open>re_match p s\<close> is \<^verbatim>\<open>bool(re.match(p, s))\<close>;
  \<^item> \<open>load_schema\<close> and \<open>validate\<close> are the methods of \<^verbatim>\<open>SchemaValidator\<close>
    (\<^verbatim>\<open>beerest/core/schema.py\<close>, not part of the sources at hand); \<open>validate\<close>
    returns \<^verbatim>\<open>is_valid\<close> and \<^verbatim>\<open>error_messages\<close>.
  The collaborators are libraries that only read what they are given.
\<close>

record env =
  now :: timestamp
  stack :: "frame list"
  jsonpath_find :: "pyval \<Rightarrow> pyval \<Rightarrow> py_exc + step list list"
  re_match :: "string \<Rightarrow> string \<Rightarrow> py_exc + bool"
  load_schema :: "string \<Rightarrow> py_exc + pyval"
  validate :: "pyval \<Rightarrow> pyval \<Rightarrow> py_exc + bool \<times> pyval"

text \<open>
  An operation returns the chain (\<open>None\<close>) or raises (\<open>Some\<close>); the chain object
  outlives the exception, so its state is returned in both cases.
\<close>

type_synonym outcome = "py_exc option \<times> expect"

definition raised :: "outcome \<Rightarrow> py_exc option" where
  "raised r = fst r"

definition chain :: "outcome \<Rightarrow> expect" where
  "chain r = snd r"

section \<open>Built-in operators used by the predicates\<close>

text \<open>\<^verbatim>\<open>len(v)\<close>: strings, lists and dictionaries have a length; the rest raise.\<close>

fun py_len :: "pyval \<Rightarrow> py_exc + nat" where
  "py_len (PStr s) = Inr (length s)"
| "py_len (PList xs) = Inr (length xs)"
| "py_len (PDict kvs) = Inr (length kvs)"
| "py_len v = Inl TypeError"

fun startswith :: "string \<Rightarrow> string \<Rightarrow> bool" where
  "startswith s [] = True"
| "startswith [] (p # ps) = False"
| "startswith (c # s) (p # ps) = (c = p \<and> startswith s ps)"

fun substring :: "string \<Rightarrow> string \<Rightarrow> bool" where
  "substring t [] = (t = [])"
| "substring t (c # s) = (startswith (c # s) t \<or> substring t s)"

text \<open>
  \<^verbatim>\<open>x in v\<close>: a substring test on a string (the left operand must be a string), an
  element test with \<^verbatim>\<open>==\<close> on a list, a key test on a dictionary (the operand must
  be hashable: no list, no dictionary); the rest raise.
\<close>

fun py_in :: "pyval \<Rightarrow> pyval \<Rightarrow> py_exc + bool" where
  "py_in x (PStr s) = (case x of PStr t \<Rightarrow> Inr (substring t s) | _ \<Rightarrow> Inl TypeError)"
| "py_in x (PList xs) = Inr (list_ex (\<lambda>y. py_eq y x) xs)"
| "py_in x (PDict kvs) =
     (case x of PList _ \<Rightarrow> Inl TypeError | PDict _ \<Rightarrow> Inl TypeError
      | _ \<Rightarrow> Inr (list_ex (\<lambda>k. py_eq (PStr k) x) (map fst kvs)))"
| "py_in x v = Inl TypeError"

text \<open>
  \<^verbatim>\<open>a < b\<close> and \<^verbatim>\<open>a > b\<close>: numbers among themselves, strings among themselves by
  code point, lists among themselves by their first differing elements (or their
  lengths when there is none); the rest raise. \<open>Lt\<close> and \<open>Gt\<close> name the operator.
\<close>

datatype cmp_op = Lt | Gt

fun cmp_int :: "cmp_op \<Rightarrow> int \<Rightarrow> int \<Rightarrow> bool" where
  "cmp_int Lt x y = (x < y)"
| "cmp_int Gt x y = (x > y)"

fun cmp_str :: "cmp_op \<Rightarrow> string \<Rightarrow> string \<Rightarrow> bool" where
  "cmp_str opr [] t = (case opr of Lt \<Rightarrow> t \<noteq> [] | Gt \<Rightarrow> False)"
| "cmp_str opr (c # s) [] = (case opr of Lt \<Rightarrow> False | Gt \<Rightarrow> True)"
| "cmp_str opr (c # s) (d # t) =
     (if c = d then cmp_str opr s t else cmp_int opr (of_char c) (of_char d))"

fun py_cmp :: "cmp_op \<Rightarrow> pyval \<Rightarrow> pyval \<Rightarrow> py_exc + bool"
  and cmp_list :: "cmp_op \<Rightarrow> pyval list \<Rightarrow> pyval list \<Rightarrow> py_exc + bool" where
  "py_cmp opr PNone b = Inl TypeError"
| "py_cmp opr (PBool x) b =
     (case num_of b of Some j \<Rightarrow> Inr (cmp_int opr (if x then 1 else 0) j) | None \<Rightarrow> Inl TypeError)"
| "py_cmp opr (PInt i) b =
     (case num_of b of Some j \<Rightarrow> Inr (cmp_int opr i j) | None \<Rightarrow> Inl TypeError)"
| "py_cmp opr (PStr s) b = (case b of PStr t \<Rightarrow> Inr (cmp_str opr s t) | _ \<Rightarrow> Inl TypeError)"
| "py_cmp opr (PList xs) b = (case b of PList ys \<Rightarrow> cmp_list opr xs ys | _ \<Rightarrow> Inl TypeError)"
| "py_cmp opr (PDict kvs) b = Inl TypeError"
| "cmp_list opr [] ys = Inr (case opr of Lt \<Rightarrow> ys \<noteq> [] | Gt \<Rightarrow> False)"
| "cmp_list opr (x # xs) ys =
     (case ys of [] \<Rightarrow> Inr (case opr of Lt \<Rightarrow> False | Gt \<Rightarrow> True)
      | y # ys' \<Rightarrow> if py_eq x y then cmp_list opr xs ys' else py_cmp opr x y)"

section \<open>The diagnostic formatter\<close>

text \<open>
  The glyphs of the report lie beyond code point 255; each is a constant, spelled by
  its UTF-8 bytes. The code never measures or searches them.
\<close>

definition heavy_line :: string where
  "heavy_line = [CHR 0xE2, CHR 0x94, CHR 0x81]"

definition bullet :: string where
  "bullet = [CHR 0xE2, CHR 0x80, CHR 0xA2]"

definition arrow :: string where
  "arrow = [CHR 0xE2, CHR 0x86, CHR 0x92]"

definition red_circle :: string where
  "red_circle = [CHR 0xF0, CHR 0x9F, CHR 0x94, CHR 0xB4]"

definition clipboard :: string where
  "clipboard = [CHR 0xF0, CHR 0x9F, CHR 0x93, CHR 0x8B]"

definition antenna :: string where
  "antenna = [CHR 0xF0, CHR 0x9F, CHR 0x93, CHR 0xA1]"

definition cross_mark :: string where
  "cross_mark = [CHR 0xE2, CHR 0x9D, CHR 0x8C]"

definition divider :: string where
  "divider = concat (replicate 100 heavy_line)"

definition newline :: string where
  "newline = [CHR 0x0A]"

definition zfill :: "nat \<Rightarrow> string \<Rightarrow> string" where
  "zfill w t = replicate (w - length t) CHR ''0'' @ t"

text \<open>\<^verbatim>\<open>timestamp.strftime('%H:%M:%S.%f')[:-3]\<close>\<close>

definition strftime :: "timestamp \<Rightarrow> string" where
  "strftime t =
     zfill 2 (str_nat (hour t)) @ '':'' @ zfill 2 (str_nat (minute t)) @ '':'' @
     zfill 2 (str_nat (second t)) @ ''.'' @ zfill 6 (str_nat (microsecond t))"

definition format_time :: "timestamp \<Rightarrow> string" where
  "format_time t = (let f = strftime t in take (length f - 3) f)"

text \<open>
  The walk up the stack: the first frame whose function name starts with
  \<^verbatim>\<open>test_\<close> gives the test information; with no such frame it stays empty.
\<close>

fun find_test_info :: "frame list \<Rightarrow> string" where
  "find_test_info [] = []"
| "find_test_info (f # fs) =
     (if startswith (co_name f) ''test_''
      then ''Test: '' @ co_name f @ newline @ ''File: '' @ co_filename f @ '':'' @ str_nat (f_lineno f)
      else find_test_info fs)"

definition json_preview :: "pyval \<Rightarrow> string" where
  "json_preview d =
     (let p = py_str d in if length p > 150 then take 150 p @ ''...'' else p)"

definition response_block :: "response option \<Rightarrow> string list" where
  "response_block resp =
     (case resp of
        None \<Rightarrow> []
      | Some r \<Rightarrow>
          [antenna @ '' Response Information:'',
           ''   '' @ bullet @ '' Status: '' @ py_str (status_code r)]
          @ [''   '' @ bullet @ '' Time: '' @ py_str (elapsed_time r) @ ''ms'']
          @ (if py_truthy (json_data r)
             then [''   '' @ bullet @ '' Body: '' @ json_preview (json_data r)] else [])
          @ [[]])"

definition failure_block :: "check \<Rightarrow> string list" where
  "failure_block c =
     [cross_mark @ '' Failure:'',
      ''   '' @ arrow @ '' Type: '' @ message c,
      ''   '' @ arrow @ '' Expected: '' @ str_recorded (expected c),
      ''   '' @ arrow @ '' Received: '' @ str_recorded (actual c),
      ''   '' @ arrow @ '' Time: '' @ format_time (timestamp c),
      []]"

text \<open>
  \<^verbatim>\<open>ExpectError.format_message\<close>. Its first argument is the call stack it walks,
  innermost frame first.
\<close>

definition format_message :: "frame list \<Rightarrow> check list \<Rightarrow> response option \<Rightarrow> string" where
  "format_message stk cs resp =
     (let failed_checks = filter (\<lambda>c. \<not> passed c) cs;
          test_info = find_test_info stk;
          message_parts =
            [newline @ red_circle @ '' TEST ASSERTION FAILED'', divider, []]
            @ (if test_info \<noteq> []
               then [clipboard @ '' Test Information:'', ''   '' @ bullet @ '' '' @ test_info, []]
               else [])
            @ response_block resp
            @ concat (map failure_block failed_checks)
            @ [divider]
      in join newline message_parts)"

text \<open>\<^verbatim>\<open>ExpectError.__init__\<close>, called with the stack of its caller.\<close>

definition ExpectError_init ::
  "frame list \<Rightarrow> string \<Rightarrow> check list \<Rightarrow> response option \<Rightarrow> expect_error" where
  "ExpectError_init stk m cs resp =
     \<lparr>err_message = m, err_checks = cs, err_response = resp,
      err_text = format_message stk cs resp\<rparr>"

section \<open>The assertion chain\<close>

text \<open>\<^verbatim>\<open>Expect.__init__\<close>\<close>

definition Expect_init :: "response \<Rightarrow> string option \<Rightarrow> expect" where
  "Expect_init r c =
     \<lparr>response = r, checks = [], chain_context = c, current_value = PNone,
      cursor_origin = Detached, current_path = PNone, soft_assert = False\<rparr>"

text \<open>
  \<^verbatim>\<open>Expect._add_check\<close>. The frames between a test and \<^verbatim>\<open>format_message\<close> belong
  to methods of this file, none of which is named \<^verbatim>\<open>test_...\<close>, so the walk sees
  the stack of the caller.
\<close>

definition add_check :: "env \<Rightarrow> expect \<Rightarrow> bool \<Rightarrow> string \<Rightarrow> recorded \<Rightarrow> recorded \<Rightarrow> outcome" where
  "add_check e s p msg act exp =
     (let c = \<lparr>passed = p, message = msg, actual = act, expected = exp,
               check_context = chain_context s, timestamp = now e\<rparr>;
          s' = s\<lparr>checks := checks s @ [c]\<rparr>
      in if \<not> p
         then (Some (ExpectError (ExpectError_init (stack e) ''Assertion failed'' [c] (Some (response s)))), s')
         else (None, s'))"

text \<open>\<^verbatim>\<open>Expect.equals\<close>, with its trailing \<^verbatim>\<open>raise AssertionError\<close>.\<close>

definition equals :: "env \<Rightarrow> expect \<Rightarrow> pyval \<Rightarrow> outcome" where
  "equals e s x =
     (let p = (py_str (current_value s) = py_str x) in
      case add_check e s p ''equality check'' (Val (current_value s)) (Val x) of
        (Some exc, s') \<Rightarrow> (Some exc, s')
      | (None, s') \<Rightarrow>
          if \<not> p
          then (Some (AssertionError
                  (''Expected '' @ py_str x @ '', but got '' @ py_str (current_value s'))), s')
          else (None, s'))"

subsection \<open>Navigation\<close>

text \<open>\<^verbatim>\<open>Expect.status\<close>; the default \<^verbatim>\<open>code=None\<close> is \<open>PNone\<close>.\<close>

definition status :: "env \<Rightarrow> expect \<Rightarrow> pyval \<Rightarrow> outcome" where
  "status e s code =
     (let s' = s\<lparr>current_value := status_code (response s), cursor_origin := In_status\<rparr>
      in if code \<noteq> PNone then equals e s' code else (None, s'))"

text \<open>
  \<^verbatim>\<open>Expect.body\<close>; the default \<^verbatim>\<open>path=None\<close> is \<open>PNone\<close>. \<^verbatim>\<open>if path:\<close> is
  the truthiness of the argument: it fails for \<^verbatim>\<open>None\<close> and for the empty string.
  The bare \<^verbatim>\<open>except:\<close> turns whatever the path library raises into a
  \<^verbatim>\<open>ValueError\<close>. With no path the cursor is the body itself; with a path it is
  the part of the body that the first match names, or \<^verbatim>\<open>None\<close> with no match.
\<close>

definition body :: "env \<Rightarrow> expect \<Rightarrow> pyval \<Rightarrow> outcome" where
  "body e s path =
     (if py_truthy path
      then
        if \<not> py_truthy (json_data (response s))
        then (Some (ValueError ''Response has no JSON data''), s)
        else
          (case jsonpath_find e path (json_data (response s)) of
             Inl exc \<Rightarrow> (Some (ValueError (''Invalid JSONPath: '' @ py_str path)), s)
           | Inr matches \<Rightarrow>
               (case matches of
                  [] \<Rightarrow> (None, s\<lparr>current_value := PNone, cursor_origin := Detached\<rparr>)
                | m # ms \<Rightarrow>
                    (None, s\<lparr>current_value :=
                              (case get_at (json_data (response s)) m of
                                 None \<Rightarrow> PNone | Some v \<Rightarrow> v),
                            cursor_origin := In_json m\<rparr>)))
      else (None, s\<lparr>current_value := json_data (response s), cursor_origin := In_json []\<rparr>))"

text \<open>\<^verbatim>\<open>Expect.header\<close>: \<^verbatim>\<open>dict.get\<close> gives \<^verbatim>\<open>None\<close> for a missing name.\<close>

definition header :: "env \<Rightarrow> expect \<Rightarrow> string \<Rightarrow> outcome" where
  "header e s name =
     (case map_of (headers (response s)) name of
        None \<Rightarrow> (None, s\<lparr>current_value := PNone, cursor_origin := Detached\<rparr>)
      | Some v \<Rightarrow> (None, s\<lparr>current_value := v, cursor_origin := In_header name\<rparr>))"

text \<open>\<^verbatim>\<open>Expect.time\<close>\<close>

definition time :: "env \<Rightarrow> expect \<Rightarrow> outcome" where
  "time e s =
     (None, s\<lparr>current_value := elapsed_time (response s), cursor_origin := In_elapsed\<rparr>)"

subsection \<open>Predicates\<close>

text \<open>
  The arguments of \<^verbatim>\<open>_add_check\<close> are evaluated before the call, from left to
  right: an operator that raises there raises before any check is built.
\<close>

text \<open>\<^verbatim>\<open>Expect.contains\<close>\<close>

definition contains :: "env \<Rightarrow> expect \<Rightarrow> pyval \<Rightarrow> outcome" where
  "contains e s x =
     (case py_in x (current_value s) of
        Inl exc \<Rightarrow> (Some exc, s)
      | Inr b \<Rightarrow> add_check e s b ''contains check'' (Val (current_value s)) (Val x))"

text \<open>\<^verbatim>\<open>Expect.matches\<close>\<close>

definition matches :: "env \<Rightarrow> expect \<Rightarrow> string \<Rightarrow> outcome" where
  "matches e s pattern =
     (case re_match e pattern (py_str (current_value s)) of
        Inl exc \<Rightarrow> (Some exc, s)
      | Inr b \<Rightarrow> add_check e s b ''pattern match'' (Val (current_value s)) (Val (PStr pattern)))"

text \<open>\<^verbatim>\<open>Expect.less_than\<close>\<close>

definition less_than :: "env \<Rightarrow> expect \<Rightarrow> pyval \<Rightarrow> outcome" where
  "less_than e s v =
     (case py_cmp Lt (current_value s) v of
        Inl exc \<Rightarrow> (Some exc, s)
      | Inr b \<Rightarrow> add_check e s b ''less than check'' (Val (current_value s)) (Val v))"

text \<open>\<^verbatim>\<open>Expect.greater_than\<close>\<close>

definition greater_than :: "env \<Rightarrow> expect \<Rightarrow> pyval \<Rightarrow> outcome" where
  "greater_than e s v =
     (case py_cmp Gt (current_value s) v of
        Inl exc \<Rightarrow> (Some exc, s)
      | Inr b \<Rightarrow> add_check e s b ''greater than check'' (Val (current_value s)) (Val v))"

text \<open>\<^verbatim>\<open>Expect.has_length\<close>: \<^verbatim>\<open>len\<close> is called for the test and again for the record.\<close>

definition has_length :: "env \<Rightarrow> expect \<Rightarrow> pyval \<Rightarrow> outcome" where
  "has_length e s n =
     (case py_len (current_value s) of
        Inl exc \<Rightarrow> (Some exc, s)
      | Inr l \<Rightarrow>
          (case py_len (current_value s) of
             Inl exc \<Rightarrow> (Some exc, s)
           | Inr l' \<Rightarrow>
               add_check e s (py_eq (PInt (int l)) n) ''length check'' (Val (PInt (int l'))) (Val n)))"

text \<open>
  \<^verbatim>\<open>Expect.is_json\<close>: the test is \<^verbatim>\<open>json_data is not None\<close>, the recorded value is
  \<^verbatim>\<open>bool(json_data)\<close>, and \<^verbatim>\<open>expected\<close> keeps its default.
\<close>

definition is_json :: "env \<Rightarrow> expect \<Rightarrow> outcome" where
  "is_json e s =
     add_check e s (json_data (response s) \<noteq> PNone) ''JSON validation''
       (Val (PBool (py_truthy (json_data (response s))))) (Val PNone)"

text \<open>
  \<^verbatim>\<open>Expect.has_keys\<close>: the comprehension tests each key with \<^verbatim>\<open>not in\<close>, in order;
  \<^verbatim>\<open>.keys()\<close> exists on a dictionary only.
\<close>

fun missing_keys :: "string list \<Rightarrow> pyval \<Rightarrow> py_exc + string list" where
  "missing_keys [] v = Inr []"
| "missing_keys (k # ks) v =
     (case py_in (PStr k) v of
        Inl exc \<Rightarrow> Inl exc
      | Inr b \<Rightarrow>
          (case missing_keys ks v of
             Inl exc \<Rightarrow> Inl exc
           | Inr m \<Rightarrow> Inr (if \<not> b then k # m else m)))"

definition has_keys :: "env \<Rightarrow> expect \<Rightarrow> string list \<Rightarrow> outcome" where
  "has_keys e s keys =
     (case missing_keys keys (current_value s) of
        Inl exc \<Rightarrow> (Some exc, s)
      | Inr missing \<Rightarrow>
          (case current_value s of
             PDict kvs \<Rightarrow>
               add_check e s (missing = []) ''keys presence check''
                 (KeySet (map fst kvs)) (KeySet (remdups keys))
           | _ \<Rightarrow> (Some AttributeError, s)))"

text \<open>
  \<^verbatim>\<open>Expect.satisfies\<close>; the default message is \<^verbatim>\<open>"custom check"\<close>. The predicate is
  code of the caller: applied to the cursor it gives its verdict, or raises, and leaves
  the object it was handed with some contents. It runs first; the value recorded is read
  from the cursor afterwards.
\<close>

definition satisfies ::
  "env \<Rightarrow> expect \<Rightarrow> (pyval \<Rightarrow> (py_exc + bool) \<times> pyval) \<Rightarrow> string \<Rightarrow> outcome" where
  "satisfies e s predicate msg =
     (case predicate (current_value s) of
        (verdict, w) \<Rightarrow>
          let s' = hand_over s w in
          (case verdict of
             Inl exc \<Rightarrow> (Some exc, s')
           | Inr b \<Rightarrow> add_check e s' b msg (Val (current_value s')) (Val PNone)))"

text \<open>\<^verbatim>\<open>Expect.matches_schema\<close>: a schema given as a string is loaded first.\<close>

definition matches_schema :: "env \<Rightarrow> expect \<Rightarrow> pyval \<Rightarrow> outcome" where
  "matches_schema e s schema =
     (case (case schema of PStr name \<Rightarrow> load_schema e name | _ \<Rightarrow> Inr schema) of
        Inl exc \<Rightarrow> (Some exc, s)
      | Inr schema' \<Rightarrow>
          (case validate e (current_value s) schema' of
             Inl exc \<Rightarrow> (Some exc, s)
           | Inr (is_valid, error_messages) \<Rightarrow>
               add_check e s is_valid
                 (''schema validation: '' @ (if \<not> is_valid then py_str error_messages else []))
                 (Val (current_value s)) (Val schema')))"

text \<open>\<^verbatim>\<open>Expect.has_type\<close>\<close>

definition has_type :: "env \<Rightarrow> expect \<Rightarrow> pyval \<Rightarrow> outcome" where
  "has_type e s expected_type = matches_schema e s (PDict [(''type'', expected_type)])"

text \<open>\<^verbatim>\<open>Expect.has_array_items\<close>\<close>

definition has_array_items :: "env \<Rightarrow> expect \<Rightarrow> pyval \<Rightarrow> outcome" where
  "has_array_items e s item_schema =
     matches_schema e s (PDict [(''type'', PStr ''array''), (''items'', item_schema)])"

subsection \<open>Any operation of the class\<close>

text \<open>One constructor for each public method of \<^verbatim>\<open>Expect\<close>, with its arguments.\<close>

datatype operation =
    Status pyval
  | Body pyval
  | Header string
  | Time
  | Equals pyval
  | Contains pyval
  | Matches string
  | Less_than pyval
  | Greater_than pyval
  | Has_length pyval
  | Is_json
  | Has_keys "string list"
  | Satisfies "pyval \<Rightarrow> (py_exc + bool) \<times> pyval" string
  | Matches_schema pyval
  | Has_type pyval
  | Has_array_items pyval

fun call :: "env \<Rightarrow> expect \<Rightarrow> operation \<Rightarrow> outcome" where
  "call e s (Status code) = status e s code"
| "call e s (Body path) = body e s path"
| "call e s (Header name) = header e s name"
| "call e s Time = time e s"
| "call e s (Equals x) = equals e s x"
| "call e s (Contains x) = contains e s x"
| "call e s (Matches pattern) = matches e s pattern"
| "call e s (Less_than v) = less_than e s v"
| "call e s (Greater_than v) = greater_than e s v"
| "call e s (Has_length n) = has_length e s n"
| "call e s Is_json = is_json e s"
| "call e s (Has_keys keys) = has_keys e s keys"
| "call e s (Satisfies predicate msg) = satisfies e s predicate msg"
| "call e s (Matches_schema schema) = matches_schema e s schema"
| "call e s (Has_type t) = has_type e s t"
| "call e s (Has_array_items i) = has_array_items e s i"

section \<open>Worked values\<close>

text \<open>
  Concrete inputs for the examples: a time of day, surroundings whose path library
  finds no match, a response with a given status code and JSON body, a chain on such a
  response with a given cursor, frames of a test, of \<^verbatim>\<open>format_message\<close> itself and of
  the hook of \<^verbatim>\<open>conftest.py\<close>, and a record of an equality check.
\<close>

definition t0 :: timestamp where
  "t0 = \<lparr>hour = 9, minute = 5, second = 7, microsecond = 123456\<rparr>"

definition no_ext :: "frame list \<Rightarrow> env" where
  "no_ext stk =
     \<lparr>now = t0, stack = stk,
      jsonpath_find = (\<lambda>p d. Inr []),
      re_match = (\<lambda>p t. Inr False),
      load_schema = (\<lambda>n. Inl (External ''no schema'')),
      validate = (\<lambda>v sc. Inr (True, PList []))\<rparr>"

definition resp_of :: "pyval \<Rightarrow> pyval \<Rightarrow> response" where
  "resp_of code d = \<lparr>status_code = code, headers = [], json_data = d, elapsed_time = PInt 12\<rparr>"

definition chain0 :: "pyval \<Rightarrow> pyval \<Rightarrow> expect" where
  "chain0 d v = (Expect_init (resp_of (PInt 200) d) None)\<lparr>current_value := v\<rparr>"

definition frame_a :: "nat \<Rightarrow> frame" where
  "frame_a n = \<lparr>co_name = ''test_a'', co_filename = ''t.py'', f_lineno = n\<rparr>"

definition own_frame :: frame where
  "own_frame = \<lparr>co_name = ''format_message'', co_filename = ''expect.py'', f_lineno = 36\<rparr>"

definition hook_frame :: frame where
  "hook_frame =
     \<lparr>co_name = ''pytest_exception_interact'', co_filename = ''conftest.py'', f_lineno = 9\<rparr>"

definition users :: pyval where
  "users = PDict [(''users'', PList [PDict [(''a'', PInt 1), (''id'', PInt 7)]])]"

text \<open>\<^verbatim>\<open>lambda v: v.pop('a') == 1\<close>, a predicate that changes its argument.\<close>

definition pop_a :: "pyval \<Rightarrow> (py_exc + bool) \<times> pyval" where
  "pop_a v =
     (case v of
        PDict kvs \<Rightarrow>
          (case map_of kvs ''a'' of
             None \<Rightarrow> (Inl (External ''KeyError''), v)
           | Some x \<Rightarrow> (Inr (py_eq x (PInt 1)), PDict (filter (\<lambda>kv. fst kv \<noteq> ''a'') kvs)))
      | _ \<Rightarrow> (Inl AttributeError, v))"

definition check0 :: "bool \<Rightarrow> check" where
  "check0 p =
     \<lparr>passed = p, message = ''equality check'', actual = Val (PInt 404),
      expected = Val (PInt 200), check_context = None, timestamp = t0\<rparr>"

text \<open>
  The exception with which the code itself reports a state it cannot work on: the two
  \<^verbatim>\<open>raise ValueError\<close> of \<^verbatim>\<open>Expect.body\<close>.
\<close>

fun is_ValueError :: "py_exc \<Rightarrow> bool" where
  "is_ValueError (ValueError m) = True"
| "is_ValueError exc = False"

text \<open>
  Shorthand for the statements below: the record of a failed check, and the outcome of
  an operation that appends the record \<open>c\<close> and raises the signal built by
  \<^verbatim>\<open>ExpectError("Assertion failed", [check], self.response)\<close>.
\<close>

abbreviation failed_check :: "env \<Rightarrow> expect \<Rightarrow> string \<Rightarrow> recorded \<Rightarrow> recorded \<Rightarrow> check" where
  "failed_check e s m a x \<equiv>
     \<lparr>passed = False, message = m, actual = a, expected = x,
      check_context = chain_context s, timestamp = now e\<rparr>"

abbreviation signalled :: "env \<Rightarrow> expect \<Rightarrow> check \<Rightarrow> outcome" where
  "signalled e s c \<equiv>
     (Some (ExpectError \<lparr>err_message = ''Assertion failed'', err_checks = [c],
        err_response = Some (response s),
        err_text = format_message (stack e) [c] (Some (response s))\<rparr>),
      s\<lparr>checks := checks s @ [c]\<rparr>)"

section \<open>Facts about the built-in operators and \<^verbatim>\<open>_add_check\<close>\<close>

lemma put_at_same:
  "get_at v steps = Some w \<Longrightarrow> put_at v steps w = v"
  "(case map_of kvs k of None \<Rightarrow> None | Some x \<Rightarrow> get_at x steps) = Some w \<Longrightarrow>
     put_key kvs k steps w = kvs"
  "i < length xs \<Longrightarrow> get_at (xs ! i) steps = Some w \<Longrightarrow> put_index xs i steps w = xs"
  by (induction v steps w and kvs k steps w and xs i steps w rule: put_at_put_key_put_index.induct)
     (auto split: option.splits if_splits nat.splits)

lemma get_at_put_at:
  "get_at v steps \<noteq> None \<Longrightarrow> get_at (put_at v steps w) steps = Some w"
  "(case map_of kvs k of None \<Rightarrow> None | Some x \<Rightarrow> get_at x steps) \<noteq> None \<Longrightarrow>
     (case map_of (put_key kvs k steps w) k of None \<Rightarrow> None | Some y \<Rightarrow> get_at y steps) = Some w"
  "i < length xs \<Longrightarrow> get_at (xs ! i) steps \<noteq> None \<Longrightarrow>
     i < length (put_index xs i steps w) \<and> get_at (put_index xs i steps w ! i) steps = Some w"
  by (induction v steps w and kvs k steps w and xs i steps w rule: put_at_put_key_put_index.induct)
     (auto split: option.splits if_splits nat.splits)

lemma add_check_pass:
  "add_check e s True msg a x =
     (None, s\<lparr>checks := checks s @ [\<lparr>passed = True, message = msg, actual = a, expected = x,
        check_context = chain_context s, timestamp = now e\<rparr>]\<rparr>)"
  by (simp add: add_check_def)

lemma add_check_False:
  "add_check e s False m a x = signalled e s (failed_check e s m a x)"
  by (simp add: add_check_def Let_def ExpectError_init_def)

lemma response_add_check: "response (chain (add_check e s p msg a x)) = response s"
  by (simp add: add_check_def chain_def Let_def)

lemma py_len_error: "py_len v = Inl exc \<Longrightarrow> exc = TypeError"
  by (cases v) simp_all

lemma py_in_error: "py_in x v = Inl exc \<Longrightarrow> exc = TypeError"
  by (cases v; cases x) simp_all

lemma py_cmp_error:
  "py_cmp opr a b = Inl exc \<Longrightarrow> exc = TypeError"
  "cmp_list opr xs ys = Inl exc \<Longrightarrow> exc = TypeError"
  by (induction opr a b and opr xs ys rule: py_cmp_cmp_list.induct)
     (auto split: option.splits pyval.splits list.splits if_splits)

lemma equals_pass:
  "py_str (current_value s) = py_str x \<Longrightarrow>
   equals e s x = add_check e s True ''equality check'' (Val (current_value s)) (Val x)"
  by (simp add: equals_def add_check_pass)

lemma equals_signal:
  "py_str (current_value s) \<noteq> py_str x \<Longrightarrow>
   equals e s x =
     signalled e s (failed_check e s ''equality check'' (Val (current_value s)) (Val x))"
  by (simp add: equals_def add_check_False)

section \<open>Selecting the body\<close>

text \<open>
  Claim C1, as the specification has it: \<^verbatim>\<open>body()\<close> with no path, on a response
  whose decoded JSON body is absent, raises the state error and does not simply set
  the cursor to the absent body. The code does otherwise: on a response whose
  \<^verbatim>\<open>json_data\<close> is \<^verbatim>\<open>None\<close> the call raises nothing and the cursor is \<^verbatim>\<open>None\<close>.
\<close>

theorem body_without_path_counterexample:
  "json_data (response (chain0 PNone (PInt 7))) = PNone \<and>
   raised (body (no_ext []) (chain0 PNone (PInt 7)) PNone) = None \<and>
   current_value (chain (body (no_ext []) (chain0 PNone (PInt 7)) PNone)) = PNone"
  by (simp add: body_def chain0_def Expect_init_def resp_of_def raised_def chain_def)

text \<open>
  Claim C1, amended: \<^verbatim>\<open>body()\<close> with no path never raises; it sets the cursor to
  \<^verbatim>\<open>json_data\<close>, whatever that is (\<^verbatim>\<open>None\<close> when the body is absent), and
  returns the chain with nothing else changed. The cursor is the body itself, the
  object the response holds.
\<close>

theorem body_without_path_sets_cursor:
  "body e s PNone =
     (None, s\<lparr>current_value := json_data (response s), cursor_origin := In_json []\<rparr>)"
  by (simp add: body_def)

theorem body_without_path_sets_cursor_witness:
  "body (no_ext []) (chain0 (PDict [(''id'', PInt 1)]) PNone) PNone
     = (None, (chain0 (PDict [(''id'', PInt 1)]) (PDict [(''id'', PInt 1)]))
                \<lparr>cursor_origin := In_json []\<rparr>)"
  using body_without_path_sets_cursor [of "no_ext []" "chain0 (PDict [(''id'', PInt 1)]) PNone"]
  by (simp add: chain0_def Expect_init_def resp_of_def)

text \<open>
  Claim C10: \<^verbatim>\<open>body(path)\<close> with a path argument (one that \<^verbatim>\<open>if path:\<close> accepts),
  on a response whose \<^verbatim>\<open>json_data\<close> is falsy, raises
  \<^verbatim>\<open>ValueError("Response has no JSON data")\<close> and leaves the chain as it was; the
  result does not depend on the path library, which is never called. The guard sits in
  the with-path branch only: with no path the same response raises nothing.
\<close>

theorem body_guard_only_with_path:
  "(py_truthy path \<and> \<not> py_truthy (json_data (response s)) \<longrightarrow>
      body e s path = (Some (ValueError ''Response has no JSON data''), s)) \<and>
   (\<not> py_truthy path \<longrightarrow>
      body e s path =
        (None, s\<lparr>current_value := json_data (response s), cursor_origin := In_json []\<rparr>))"
  by (simp add: body_def)

theorem body_guard_only_with_path_witness:
  "py_truthy (PStr ''$.a'') \<and> \<not> py_truthy (json_data (response (chain0 (PDict []) PNone))) \<and>
   body ((no_ext [])\<lparr>jsonpath_find := (\<lambda>p d. Inr [[]])\<rparr>) (chain0 (PDict []) PNone) (PStr ''$.a'')
     = (Some (ValueError ''Response has no JSON data''), chain0 (PDict []) PNone) \<and>
   \<not> py_truthy PNone \<and>
   body (no_ext []) (chain0 (PDict []) PNone) PNone
     = (None, (chain0 (PDict []) PNone)\<lparr>current_value := PDict [], cursor_origin := In_json []\<rparr>)"
  using body_guard_only_with_path [of "PStr ''$.a''" "chain0 (PDict []) PNone"
      "(no_ext [])\<lparr>jsonpath_find := (\<lambda>p d. Inr [[]])\<rparr>"]
    body_guard_only_with_path [of PNone "chain0 (PDict []) PNone" "no_ext []"]
  by (simp add: chain0_def Expect_init_def resp_of_def)

text \<open>
  Claim C5: for every response with a present JSON body and every well-formed path that
  matches nothing, \<^verbatim>\<open>body(path)\<close> sets the cursor to \<^verbatim>\<open>None\<close> without raising,
  and \<^verbatim>\<open>equals(None)\<close> then passes. The code falls short of it on a body that is
  present but empty. On \<^verbatim>\<open>{}\<close>, with a path that matches nothing, the guard
  \<^verbatim>\<open>if not self.response.json_data\<close> tests truthiness, not presence, and raises
  \<^verbatim>\<open>ValueError("Response has no JSON data")\<close>, although \<^verbatim>\<open>is_json\<close> passes on
  the same response and \<^verbatim>\<open>body()\<close> with no path hands the same body over.
\<close>

theorem body_empty_json_raises:
  "json_data (response (chain0 (PDict []) PNone)) = PDict [] \<and>
   jsonpath_find (no_ext []) (PStr ''$.a'') (PDict []) = Inr [] \<and>
   body (no_ext []) (chain0 (PDict []) PNone) (PStr ''$.a'')
     = (Some (ValueError ''Response has no JSON data''), chain0 (PDict []) PNone) \<and>
   raised (is_json (no_ext []) (chain0 (PDict []) PNone)) = None \<and>
   raised (body (no_ext []) (chain0 (PDict []) PNone) PNone) = None"
  by (simp add: body_def is_json_def add_check_def Let_def raised_def no_ext_def chain0_def
        Expect_init_def resp_of_def)

text \<open>
  On a body that is truthy the code does it: a non-empty path that the path library
  evaluates to no match sets the cursor to \<^verbatim>\<open>None\<close> without raising, and
  \<^verbatim>\<open>equals(None)\<close> on that chain passes, appending one passing record.
\<close>

lemma body_no_match_on_truthy_body:
  assumes "p \<noteq> []" and "py_truthy (json_data (response s))"
    and "jsonpath_find e (PStr p) (json_data (response s)) = Inr []"
  shows "body e s (PStr p) = (None, s\<lparr>current_value := PNone, cursor_origin := Detached\<rparr>) \<and>
         equals e (chain (body e s (PStr p))) PNone =
           (None, s\<lparr>current_value := PNone, cursor_origin := Detached,
              checks := checks s @ [\<lparr>passed = True, message = ''equality check'',
                actual = Val PNone, expected = Val PNone,
                check_context = chain_context s, timestamp = now e\<rparr>]\<rparr>)"
  using assms by (simp add: body_def chain_def equals_pass add_check_pass)

section \<open>The equality predicate\<close>

text \<open>
  Claim C2: for every cursor \<open>a\<close> and argument \<open>b\<close>, \<^verbatim>\<open>equals(b)\<close> passes (returns
  the chain, raising nothing) if and only if \<^verbatim>\<open>str(a) == str(b)\<close>, whatever the types
  of the two; on passing, the chain gains exactly one passing record, with the cursor as
  \<^verbatim>\<open>actual\<close> and the argument as \<^verbatim>\<open>expected\<close>.
\<close>

theorem equals_passes_iff_same_text:
  "(raised (equals e s b) = None) = (py_str (current_value s) = py_str b) \<and>
   (py_str (current_value s) = py_str b \<longrightarrow>
      equals e s b =
        (None, s\<lparr>checks := checks s @ [\<lparr>passed = True, message = ''equality check'',
           actual = Val (current_value s), expected = Val b,
           check_context = chain_context s, timestamp = now e\<rparr>]\<rparr>))"
  by (cases "py_str (current_value s) = py_str b")
     (simp_all add: equals_pass equals_signal add_check_pass raised_def)

text \<open>The number 200 as cursor and the string \<^verbatim>\<open>"200"\<close> as argument.\<close>

theorem equals_passes_iff_same_text_witness:
  "py_str (current_value (chain0 PNone (PInt 200))) = py_str (PStr ''200'') \<and>
   PInt 200 \<noteq> PStr ''200'' \<and>
   raised (equals (no_ext []) (chain0 PNone (PInt 200)) (PStr ''200'')) = None"
  using equals_passes_iff_same_text [of "no_ext []" "chain0 PNone (PInt 200)" "PStr ''200''"]
  by (simp add: chain0_def str_int_def str_nat.simps digit_char_def raised_def)

text \<open>
  Claim C9: \<^verbatim>\<open>equals\<close> never raises \<^verbatim>\<open>AssertionError\<close>. It returns the chain when
  the two texts are equal, and otherwise raises the signal that \<^verbatim>\<open>_add_check\<close> built
  for the failed record; the trailing \<^verbatim>\<open>raise AssertionError\<close> is never reached.
\<close>

theorem equals_never_assertion_error:
  "raised (equals e s x) \<noteq> Some (AssertionError m) \<and>
   raised (equals e s x) =
     (if py_str (current_value s) = py_str x then None
      else Some (ExpectError (ExpectError_init (stack e) ''Assertion failed''
        [\<lparr>passed = False, message = ''equality check'', actual = Val (current_value s),
          expected = Val x, check_context = chain_context s, timestamp = now e\<rparr>]
        (Some (response s)))))"
  by (cases "py_str (current_value s) = py_str x")
     (simp_all add: equals_pass equals_signal add_check_pass raised_def ExpectError_init_def)

theorem equals_never_assertion_error_witness:
  "py_str (PInt 404) \<noteq> py_str (PInt 200) \<and>
   raised (equals (no_ext []) (chain0 PNone (PInt 404)) (PInt 200))
     \<noteq> Some (AssertionError ''Expected 200, but got 404'')"
  using equals_never_assertion_error [of "no_ext []" "chain0 PNone (PInt 404)" "PInt 200"
      "''Expected 200, but got 404''"]
  by (simp add: str_int_def str_nat.simps digit_char_def)

section \<open>The JSON predicate\<close>

text \<open>
  Claim C3, as the specification has it: \<^verbatim>\<open>is_json\<close> passes if and only if the
  decoded JSON body is present and not empty or false-like, so it fails on \<^verbatim>\<open>{}\<close>.
  The code does otherwise: on the empty dictionary, which is falsy, the check passes.
\<close>

theorem is_json_empty_body_counterexample:
  "\<not> py_truthy (json_data (response (chain0 (PDict []) PNone))) \<and>
   raised (is_json (no_ext []) (chain0 (PDict []) PNone)) = None"
  by (simp add: is_json_def add_check_def raised_def Let_def chain0_def Expect_init_def resp_of_def)

text \<open>
  Claim C3, amended: \<^verbatim>\<open>is_json\<close> passes if and only if the decoded JSON body is
  present (\<^verbatim>\<open>json_data is not None\<close>); an empty body such as \<^verbatim>\<open>{}\<close> passes. The
  truthiness of the body is only what the record keeps as \<^verbatim>\<open>actual\<close>.
\<close>

theorem is_json_passes_iff_present:
  "(raised (is_json e s) = None) = (json_data (response s) \<noteq> PNone) \<and>
   checks (chain (is_json e s)) =
     checks s @ [\<lparr>passed = (json_data (response s) \<noteq> PNone), message = ''JSON validation'',
       actual = Val (PBool (py_truthy (json_data (response s)))), expected = Val PNone,
       check_context = chain_context s, timestamp = now e\<rparr>]"
  by (simp add: is_json_def add_check_def raised_def chain_def Let_def)

theorem is_json_passes_iff_present_witness:
  "raised (is_json (no_ext []) (chain0 (PList []) PNone)) = None \<and>
   raised (is_json (no_ext []) (chain0 PNone PNone)) \<noteq> None"
  using is_json_passes_iff_present [of "no_ext []" "chain0 (PList []) PNone"]
    is_json_passes_iff_present [of "no_ext []" "chain0 PNone PNone"]
  by (simp add: chain0_def Expect_init_def resp_of_def)

section \<open>Failed predicates\<close>















section \<open>Cursors of the wrong shape\<close>

text \<open>
  Claim C6, as the specification has it: when the cursor does not have the shape a
  predicate needs, the operation raises the state error, the one that \<^verbatim>\<open>body\<close>
  raises as \<^verbatim>\<open>ValueError\<close>, and appends no record. The code does otherwise in the
  error it raises: \<^verbatim>\<open>has_length(2)\<close> on the cursor \<^verbatim>\<open>None\<close> raises the
  \<^verbatim>\<open>TypeError\<close> of \<^verbatim>\<open>len\<close>, which is no \<^verbatim>\<open>ValueError\<close>.
\<close>

theorem shape_violation_counterexample:
  "raised (has_length (no_ext []) (chain0 PNone PNone) (PInt 2)) = Some TypeError \<and>
   \<not> is_ValueError TypeError \<and>
   is_ValueError (ValueError ''Response has no JSON data'')"
  by (simp add: has_length_def raised_def chain0_def)

text \<open>
  Claim C6, amended: when the cursor does not have the shape a predicate needs (no
  length for \<^verbatim>\<open>has_length\<close>, no membership test for \<^verbatim>\<open>contains\<close>, no order with
  the argument for \<^verbatim>\<open>less_than\<close> and \<^verbatim>\<open>greater_than\<close>), the operation raises the
  \<^verbatim>\<open>TypeError\<close> of the Python operator, raised while the arguments of
  \<^verbatim>\<open>_add_check\<close> are evaluated: neither a \<^verbatim>\<open>ValueError\<close> nor the signal of a
  failed check. The chain, its records included, is left as it was. The last two
  conjuncts name shapes: \<^verbatim>\<open>None\<close> and numbers have neither length nor membership,
  \<^verbatim>\<open>None\<close> has no order.
\<close>

theorem shape_violation_raises_without_record:
  "(py_len (current_value s) = Inl exc \<longrightarrow> exc = TypeError \<and> has_length e s n = (Some TypeError, s)) \<and>
   (py_in x (current_value s) = Inl exc \<longrightarrow> exc = TypeError \<and> contains e s x = (Some TypeError, s)) \<and>
   (py_cmp Lt (current_value s) v = Inl exc \<longrightarrow> exc = TypeError \<and> less_than e s v = (Some TypeError, s)) \<and>
   (py_cmp Gt (current_value s) v = Inl exc \<longrightarrow> exc = TypeError \<and> greater_than e s v = (Some TypeError, s)) \<and>
   (current_value s = PNone \<or> num_of (current_value s) \<noteq> None \<longrightarrow>
      has_length e s n = (Some TypeError, s) \<and> contains e s x = (Some TypeError, s)) \<and>
   (current_value s = PNone \<longrightarrow>
      less_than e s v = (Some TypeError, s) \<and> greater_than e s v = (Some TypeError, s))"
proof -
  have len: "py_len (current_value s) = Inl exc \<Longrightarrow> exc = TypeError \<and> has_length e s n = (Some TypeError, s)" for exc
    using py_len_error [of "current_value s" exc] by (simp add: has_length_def)
  have mem: "py_in x (current_value s) = Inl exc \<Longrightarrow> exc = TypeError \<and> contains e s x = (Some TypeError, s)" for exc
    using py_in_error [of x "current_value s" exc] by (simp add: contains_def)
  have lt: "py_cmp Lt (current_value s) v = Inl exc \<Longrightarrow> exc = TypeError \<and> less_than e s v = (Some TypeError, s)" for exc
    using py_cmp_error(1) [of Lt "current_value s" v exc] by (simp add: less_than_def)
  have gt: "py_cmp Gt (current_value s) v = Inl exc \<Longrightarrow> exc = TypeError \<and> greater_than e s v = (Some TypeError, s)" for exc
    using py_cmp_error(1) [of Gt "current_value s" v exc] by (simp add: greater_than_def)
  have scalar: "current_value s = PNone \<or> num_of (current_value s) \<noteq> None \<Longrightarrow>
      py_len (current_value s) = Inl TypeError \<and> py_in x (current_value s) = Inl TypeError"
    by (cases "current_value s") auto
  have none: "current_value s = PNone \<Longrightarrow> py_cmp Lt (current_value s) v = Inl TypeError \<and> py_cmp Gt (current_value s) v = Inl TypeError"
    by simp
  show ?thesis using len mem lt gt scalar none by blast
qed

theorem shape_violation_raises_without_record_witness:
  "py_len (current_value (chain0 PNone PNone)) = Inl TypeError \<and>
   has_length (no_ext []) (chain0 PNone PNone) (PInt 2) = (Some TypeError, chain0 PNone PNone) \<and>
   py_cmp Lt (current_value (chain0 PNone (PStr ''a''))) (PInt 1) = Inl TypeError \<and>
   less_than (no_ext []) (chain0 PNone (PStr ''a'')) (PInt 1)
     = (Some TypeError, chain0 PNone (PStr ''a''))"
proof -
  have a1: "py_len (current_value (chain0 PNone PNone)) = Inl TypeError"
    by (simp add: chain0_def)
  have a2: "py_cmp Lt (current_value (chain0 PNone (PStr ''a''))) (PInt 1) = Inl TypeError"
    by (simp add: chain0_def)
  from a1 a2
    shape_violation_raises_without_record [where s = "chain0 PNone PNone" and exc = TypeError
      and e = "no_ext []" and n = "PInt 2"]
    shape_violation_raises_without_record [where s = "chain0 PNone (PStr ''a'')" and exc = TypeError
      and e = "no_ext []" and v = "PInt 1"]
  show ?thesis by blast
qed

section \<open>The response is only read\<close>

lemma response_equals: "response (chain (equals e s x)) = response s"
  by (simp add: equals_def add_check_def chain_def Let_def)

lemma response_matches_schema: "response (chain (matches_schema e s sc)) = response s"
  by (simp add: matches_schema_def add_check_def chain_def Let_def
        split: sum.splits pyval.splits prod.splits)

lemma response_satisfies:
  "response (chain (satisfies e s predicate msg)) =
     response (hand_over s (snd (predicate (current_value s))))"
  by (simp add: satisfies_def add_check_def chain_def Let_def split: sum.splits prod.splits)

text \<open>
  A cursor inside the body: after \<^verbatim>\<open>body("$.users[0]")\<close> the cursor is the first
  user, a part of the body, and what the predicate takes out of it is gone from the
  body of the response.
\<close>

lemma nested_cursor_example:
  "json_data (response (chain (call
     ((no_ext [])\<lparr>jsonpath_find := (\<lambda>p d. Inr [[Key ''users'', Index 0]])\<rparr>)
     (chain (body ((no_ext [])\<lparr>jsonpath_find := (\<lambda>p d. Inr [[Key ''users'', Index 0]])\<rparr>)
        (chain0 users PNone) (PStr ''$.users[0]'')))
     (Satisfies pop_a ''custom check''))))
   = PDict [(''users'', PList [PDict [(''id'', PInt 7)]])]"
  by (simp add: body_def satisfies_def hand_over_def pop_a_def add_check_def Let_def
        raised_def chain_def chain0_def Expect_init_def resp_of_def users_def no_ext_def)

text \<open>
  Claim C8, as the specification has it: no operation of \<^verbatim>\<open>Expect\<close> ever changes the
  response the chain holds. The code does otherwise in \<^verbatim>\<open>satisfies\<close>: after
  \<^verbatim>\<open>body()\<close> the cursor is the body of the response itself, \<^verbatim>\<open>satisfies\<close> hands
  that object to the predicate, and \<^verbatim>\<open>lambda v: v.pop('a') == 1\<close> takes the key out
  of it. The check passes, and the body of the response is empty afterwards.
\<close>

theorem response_mutated_counterexample:
  "json_data (response (chain (body (no_ext []) (chain0 (PDict [(''a'', PInt 1)]) PNone) PNone)))
     = PDict [(''a'', PInt 1)] \<and>
   raised (call (no_ext [])
     (chain (body (no_ext []) (chain0 (PDict [(''a'', PInt 1)]) PNone) PNone))
     (Satisfies pop_a ''custom check'')) = None \<and>
   json_data (response (chain (call (no_ext [])
     (chain (body (no_ext []) (chain0 (PDict [(''a'', PInt 1)]) PNone) PNone))
     (Satisfies pop_a ''custom check'')))) = PDict []"
  by (simp add: body_def satisfies_def hand_over_def pop_a_def add_check_def Let_def
        raised_def chain_def chain0_def Expect_init_def resp_of_def)

text \<open>
  Claim C8, amended: no operation of \<^verbatim>\<open>Expect\<close> changes the response the chain
  holds, whether it returns or raises, except through the predicate of
  \<^verbatim>\<open>satisfies\<close>. That operation hands the cursor itself to the predicate, so the
  response is afterwards what the predicate made of the object; it is unchanged when the
  predicate leaves the object as it found it.
\<close>

theorem response_changed_only_by_predicate:
  "((case opn of
       Satisfies predicate msg \<Rightarrow>
         in_place (current_value s) (snd (predicate (current_value s))) = current_value s
     | _ \<Rightarrow> True) \<longrightarrow>
      response (chain (call e s opn)) = response s) \<and>
   response (chain (call e s (Satisfies predicate msg))) =
     response (hand_over s (snd (predicate (current_value s))))"
proof (intro conjI impI)
  show "response (chain (call e s (Satisfies predicate msg))) =
     response (hand_over s (snd (predicate (current_value s))))"
    by (simp add: response_satisfies)
next
  assume h: "case opn of
       Satisfies predicate msg \<Rightarrow>
         in_place (current_value s) (snd (predicate (current_value s))) = current_value s
     | _ \<Rightarrow> True"
  show "response (chain (call e s opn)) = response s"
  proof (cases opn)
    case (Status code)
    then show ?thesis
      using response_equals
        [of e "s\<lparr>current_value := status_code (response s), cursor_origin := In_status\<rparr>" code]
      by (simp add: status_def chain_def Let_def)
  next
    case (Equals x)
    then show ?thesis by (simp add: response_equals)
  next
    case (Body path)
    then show ?thesis by (simp add: body_def chain_def split: sum.splits list.splits)
  next
    case (Header name)
    then show ?thesis by (simp add: header_def chain_def split: option.splits)
  next
    case (Has_keys ks)
    then show ?thesis
      by (simp add: has_keys_def add_check_def chain_def Let_def split: sum.splits pyval.splits)
  next
    case (Satisfies p m)
    with h show ?thesis by (simp add: response_satisfies hand_over_def)
  next
    case (Matches_schema sc)
    then show ?thesis by (simp add: response_matches_schema)
  next
    case (Has_type t)
    then show ?thesis by (simp add: has_type_def response_matches_schema)
  next
    case (Has_array_items i)
    then show ?thesis by (simp add: has_array_items_def response_matches_schema)
  qed (simp_all add: time_def contains_def matches_def less_than_def greater_than_def
        has_length_def is_json_def chain_def add_check_def Let_def split: sum.splits)
qed

text \<open>
  A failing \<^verbatim>\<open>equals\<close>, and \<^verbatim>\<open>satisfies\<close> after \<^verbatim>\<open>body()\<close> with a predicate that
  only reads.
\<close>

theorem response_changed_only_by_predicate_witness:
  "response (chain (call (no_ext []) (chain0 PNone (PInt 404)) (Equals (PInt 200))))
     = resp_of (PInt 200) PNone \<and>
   in_place (current_value (chain (body (no_ext []) (chain0 (PDict [(''a'', PInt 1)]) PNone) PNone)))
     (snd ((\<lambda>v. (Inr (py_truthy v), v))
        (current_value (chain (body (no_ext []) (chain0 (PDict [(''a'', PInt 1)]) PNone) PNone)))))
     = current_value (chain (body (no_ext []) (chain0 (PDict [(''a'', PInt 1)]) PNone) PNone)) \<and>
   response (chain (call (no_ext [])
     (chain (body (no_ext []) (chain0 (PDict [(''a'', PInt 1)]) PNone) PNone))
     (Satisfies (\<lambda>v. (Inr (py_truthy v), v)) ''custom check'')))
     = resp_of (PInt 200) (PDict [(''a'', PInt 1)])"
proof -
  let ?s = "chain (body (no_ext []) (chain0 (PDict [(''a'', PInt 1)]) PNone) PNone)"
  let ?p = "\<lambda>v. (Inr (py_truthy v) :: py_exc + bool, v)"
  have a1: "response (chain (call (no_ext []) (chain0 PNone (PInt 404)) (Equals (PInt 200))))
     = resp_of (PInt 200) PNone"
    using response_changed_only_by_predicate
      [where opn = "Equals (PInt 200)" and s = "chain0 PNone (PInt 404)" and e = "no_ext []",
       THEN conjunct1]
    by (simp add: chain0_def Expect_init_def)
  have a2: "in_place (current_value ?s) (snd (?p (current_value ?s))) = current_value ?s"
    by (simp add: body_def chain_def chain0_def Expect_init_def resp_of_def)
  have a3: "response ?s = resp_of (PInt 200) (PDict [(''a'', PInt 1)])"
    by (simp add: body_def chain_def chain0_def Expect_init_def)
  have "response (chain (call (no_ext []) ?s (Satisfies ?p ''custom check''))) = response ?s"
    using a2 response_changed_only_by_predicate
      [where opn = "Satisfies ?p ''custom check''" and s = ?s and e = "no_ext []",
       THEN conjunct1]
    by simp
  with a1 a2 a3 show ?thesis by simp
qed

section \<open>The report\<close>

text \<open>
  The report for a failed \<^verbatim>\<open>status(200)\<close> on a response with status 404, raised in
  \<^verbatim>\<open>test_a\<close> at line 10, on a chain that holds an earlier passing record.
\<close>

lemma report_example:
  "format_message [own_frame, frame_a 10] [check0 True, check0 False]
     (Some (resp_of (PInt 404) (PDict [(''error'', PStr ''not found'')]))) =
   join newline
     [newline @ red_circle @ '' TEST ASSERTION FAILED'',
      divider,
      [],
      clipboard @ '' Test Information:'',
      ''   '' @ bullet @ '' Test: test_a'' @ newline @ ''File: t.py:10'',
      [],
      antenna @ '' Response Information:'',
      ''   '' @ bullet @ '' Status: 404'',
      ''   '' @ bullet @ '' Time: 12ms'',
      ''   '' @ bullet @ '' Body: {'' @ [CHR 0x27] @ ''error'' @ [CHR 0x27] @ '': '' @
         [CHR 0x27] @ ''not found'' @ [CHR 0x27] @ ''}'',
      [],
      cross_mark @ '' Failure:'',
      ''   '' @ arrow @ '' Type: equality check'',
      ''   '' @ arrow @ '' Expected: 200'',
      ''   '' @ arrow @ '' Received: 404'',
      ''   '' @ arrow @ '' Time: 09:05:07.123'',
      [],
      divider]"
  by (simp add: format_message_def Let_def own_frame_def frame_a_def check0_def resp_of_def
        response_block_def failure_block_def json_preview_def format_time_def strftime_def
        zfill_def t0_def str_int_def str_nat.simps digit_char_def repr_str_def repr_quote_def
        repr_char_def non_printable_def newline_def)

text \<open>
  Claim C7, as the specification has it: formatting the same failed records and the
  same response twice, with the timestamps fixed, gives the same text. The code reads
  one thing more, the call stack: called for the same record and response from line
  10 and from line 12 of the same test, \<^verbatim>\<open>format_message\<close> gives two texts.
\<close>

theorem format_message_stack_counterexample:
  "format_message [own_frame, frame_a 10] [check0 False] (Some (resp_of (PInt 404) PNone))
     \<noteq> format_message [own_frame, frame_a 12] [check0 False] (Some (resp_of (PInt 404) PNone))"
  by (simp add: format_message_def Let_def own_frame_def frame_a_def newline_def red_circle_def
        str_nat.simps digit_char_def)

text \<open>
  Claim C7, amended: formatting twice gives the same text when, besides the failed
  records (with their timestamps) and the response, the walk up the call stack finds
  the same test location both times. The records that passed and the frames the walk
  skips do not count.
\<close>

theorem format_message_determined:
  assumes "find_test_info stk = find_test_info stk'"
    and "filter (\<lambda>c. \<not> passed c) cs = filter (\<lambda>c. \<not> passed c) cs'"
  shows "format_message stk cs resp = format_message stk' cs' resp"
  using assms by (simp add: format_message_def)

theorem format_message_determined_witness:
  "find_test_info [own_frame, hook_frame, frame_a 10] = find_test_info [own_frame, frame_a 10] \<and>
   filter (\<lambda>c. \<not> passed c) [check0 True, check0 False] = filter (\<lambda>c. \<not> passed c) [check0 False] \<and>
   format_message [own_frame, hook_frame, frame_a 10] [check0 True, check0 False]
       (Some (resp_of (PInt 404) PNone))
     = format_message [own_frame, frame_a 10] [check0 False] (Some (resp_of (PInt 404) PNone))"
proof -
  have a1: "find_test_info [own_frame, hook_frame, frame_a 10] = find_test_info [own_frame, frame_a 10]"
    by (simp add: own_frame_def hook_frame_def)
  have a2: "filter (\<lambda>c. \<not> passed c) [check0 True, check0 False] = filter (\<lambda>c. \<not> passed c) [check0 False]"
    by (simp add: check0_def)
  from a1 a2 format_message_determined [OF a1 a2] show ?thesis by blast
qed

end
